theory Spec2Isabelle
  imports Complex_Main
begin

section \<open>JavaScript numbers and values\<close>

text \<open>
  The program computes with JavaScript numbers.  A number read from an object is modelled
  as a finite \<^typ>\<open>real\<close>; a property that may be missing is a \<^typ>\<open>real option\<close>, where
  \<open>None\<close> is \<open>undefined\<close>.  Rounding of IEEE doubles is not modelled.  The special results
  an operation of the program can produce from finite operands (a division by zero, an
  \<open>undefined\<close> operand) are kept: the result of such arithmetic is a \<open>jsnum\<close>.
  The zero of the model is \<open>+0\<close>; the only divisor of the program that can be zero is a
  difference \<open>x - x\<close>, which is \<open>+0\<close> in JavaScript.
\<close>

datatype jsnum = NaN | NegInf | PosInf | Num real

datatype error = TypeError

text \<open>\<open>ToNumber\<close> of a property that may be \<open>undefined\<close>.\<close>

fun to_num :: "real option \<Rightarrow> jsnum" where
  "to_num None = NaN"
| "to_num (Some x) = Num x"

text \<open>\<open>x || d\<close> for a numeric property \<open>x\<close>: \<open>undefined\<close> and \<open>0\<close> are falsy.\<close>

fun js_or :: "real option \<Rightarrow> real \<Rightarrow> real" where
  "js_or None d = d"
| "js_or (Some x) d = (if x = 0 then d else x)"

fun js_add :: "jsnum \<Rightarrow> jsnum \<Rightarrow> jsnum" where
  "js_add (Num a) (Num b) = Num (a + b)"
| "js_add NaN _ = NaN"
| "js_add _ NaN = NaN"
| "js_add PosInf NegInf = NaN"
| "js_add NegInf PosInf = NaN"
| "js_add PosInf _ = PosInf"
| "js_add _ PosInf = PosInf"
| "js_add NegInf _ = NegInf"
| "js_add _ NegInf = NegInf"

fun js_neg :: "jsnum \<Rightarrow> jsnum" where
  "js_neg (Num a) = Num (- a)"
| "js_neg NaN = NaN"
| "js_neg PosInf = NegInf"
| "js_neg NegInf = PosInf"

definition js_sub :: "jsnum \<Rightarrow> jsnum \<Rightarrow> jsnum" where
  "js_sub x y = js_add x (js_neg y)"

text \<open>The sign of an infinite product or quotient: positive if \<open>pos\<close>, else negative.\<close>

definition signed_inf :: "bool \<Rightarrow> jsnum" where
  "signed_inf pos = (if pos then PosInf else NegInf)"

fun js_mul :: "jsnum \<Rightarrow> jsnum \<Rightarrow> jsnum" where
  "js_mul (Num a) (Num b) = Num (a * b)"
| "js_mul NaN _ = NaN"
| "js_mul _ NaN = NaN"
| "js_mul (Num a) PosInf = (if a = 0 then NaN else signed_inf (0 < a))"
| "js_mul (Num a) NegInf = (if a = 0 then NaN else signed_inf (a < 0))"
| "js_mul PosInf (Num b) = (if b = 0 then NaN else signed_inf (0 < b))"
| "js_mul NegInf (Num b) = (if b = 0 then NaN else signed_inf (b < 0))"
| "js_mul PosInf PosInf = PosInf"
| "js_mul NegInf NegInf = PosInf"
| "js_mul PosInf NegInf = NegInf"
| "js_mul NegInf PosInf = NegInf"

fun js_div :: "jsnum \<Rightarrow> jsnum \<Rightarrow> jsnum" where
  "js_div (Num a) (Num b) =
     (if b = 0 then (if a = 0 then NaN else signed_inf (0 < a)) else Num (a / b))"
| "js_div NaN _ = NaN"
| "js_div _ NaN = NaN"
| "js_div (Num a) PosInf = Num 0"
| "js_div (Num a) NegInf = Num 0"
| "js_div PosInf (Num b) = signed_inf (0 \<le> b)"
| "js_div NegInf (Num b) = signed_inf (b < 0)"
| "js_div PosInf PosInf = NaN"
| "js_div PosInf NegInf = NaN"
| "js_div NegInf PosInf = NaN"
| "js_div NegInf NegInf = NaN"

text \<open>\<open>Math.min\<close> and \<open>Math.max\<close>: \<open>NaN\<close> if an argument is \<open>NaN\<close>.\<close>

fun js_min :: "jsnum \<Rightarrow> jsnum \<Rightarrow> jsnum" where
  "js_min (Num a) (Num b) = Num (min a b)"
| "js_min NaN _ = NaN"
| "js_min _ NaN = NaN"
| "js_min NegInf _ = NegInf"
| "js_min _ NegInf = NegInf"
| "js_min PosInf y = y"
| "js_min x PosInf = x"

fun js_max :: "jsnum \<Rightarrow> jsnum \<Rightarrow> jsnum" where
  "js_max (Num a) (Num b) = Num (max a b)"
| "js_max NaN _ = NaN"
| "js_max _ NaN = NaN"
| "js_max PosInf _ = PosInf"
| "js_max _ PosInf = PosInf"
| "js_max NegInf y = y"
| "js_max x NegInf = x"

text \<open>\<open>Math.floor\<close>.\<close>

fun js_floor :: "jsnum \<Rightarrow> jsnum" where
  "js_floor (Num a) = Num (real_of_int \<lfloor>a\<rfloor>)"
| "js_floor x = x"

text \<open>\<open>x > y\<close>: false if an operand is \<open>NaN\<close>.\<close>

fun js_gt :: "jsnum \<Rightarrow> jsnum \<Rightarrow> bool" where
  "js_gt (Num a) (Num b) = (b < a)"
| "js_gt NaN _ = False"
| "js_gt _ NaN = False"
| "js_gt PosInf PosInf = False"
| "js_gt PosInf _ = True"
| "js_gt _ PosInf = False"
| "js_gt NegInf _ = False"
| "js_gt _ NegInf = True"

text \<open>A finite number within bounds.\<close>

fun js_between :: "real \<Rightarrow> real \<Rightarrow> jsnum \<Rightarrow> bool" where
  "js_between lo hi (Num x) = (lo \<le> x \<and> x \<le> hi)"
| "js_between lo hi _ = False"

section \<open>ExecutionSkill: position sizing\<close>

text \<open>
  The fields of an \<open>ExecutionSkill\<close> read by \<open>calculatePositionSize\<close>:
  \<open>this.config.bankroll\<close> and \<open>this.agent?.config?.maxBetSize\<close> (\<open>None\<close> when no agent
  is attached or the property is missing).
\<close>

record execution_skill =
  config_bankroll :: "real option"
  agent_maxBetSize :: "real option"

record exec_prediction =
  confidence :: real
  marketPrice :: "real option"

text \<open>The local variable \<open>b\<close>: \<open>(1 / (prediction.marketPrice || 0.5)) - 1\<close>.\<close>

definition odds_b :: "exec_prediction \<Rightarrow> jsnum" where
  "odds_b prediction =
     js_sub (js_div (Num 1) (Num (js_or (marketPrice prediction) 0.5))) (Num 1)"

text \<open>The local variable \<open>kelly\<close> before the cap: \<open>(b * p - q) / b\<close>.\<close>

definition kelly_raw :: "exec_prediction \<Rightarrow> jsnum" where
  "kelly_raw prediction =
     (let p = confidence prediction;
          q = 1 - p;
          b = odds_b prediction
      in js_div (js_sub (js_mul b (Num p)) (Num q)) b)"

text \<open>\<open>kelly = Math.max(0, Math.min(kelly, 0.5))\<close>.\<close>

definition kelly_capped :: "exec_prediction \<Rightarrow> jsnum" where
  "kelly_capped prediction = js_max (Num 0) (js_min (kelly_raw prediction) (Num 0.5))"

definition calculatePositionSize :: "execution_skill \<Rightarrow> exec_prediction \<Rightarrow> error + jsnum" where
  "calculatePositionSize this prediction =
     (let kellyFraction = 0.25;
          bankroll = js_or (config_bankroll this) 1000;
          kelly = kelly_capped prediction;
          size = js_mul (js_mul (Num bankroll) kelly) (Num kellyFraction)
      in Inr (js_min size (Num (js_or (agent_maxBetSize this) 100))))"


text \<open>Outcomes of a call: whether it raised, and whether it returned a number in a range.\<close>

definition raises :: "error + 'a \<Rightarrow> bool" where
  "raises r = (case r of Inl _ \<Rightarrow> True | Inr _ \<Rightarrow> False)"

definition returns_between :: "real \<Rightarrow> real \<Rightarrow> error + jsnum \<Rightarrow> bool" where
  "returns_between lo hi r = (case r of Inl _ \<Rightarrow> False | Inr v \<Rightarrow> js_between lo hi v)"

section \<open>SignalAggregationSkill\<close>

text \<open>
  A signal object.  Every property may be missing; \<open>sig_type\<close> is the property \<open>type\<close>.
\<close>

record signal =
  sig_type :: "string option"
  sentiment :: "real option"
  change24h :: "real option"
  weight :: "real option"

definition normalizeSignal :: "signal \<Rightarrow> jsnum" where
  "normalizeSignal s =
     (if sig_type s = Some ''news'' then
        js_div (js_add (to_num (sentiment s)) (Num 1)) (Num 2)
      else if sig_type s = Some ''social'' then
        js_div (js_add (to_num (sentiment s)) (Num 1)) (Num 2)
      else if sig_type s = Some ''onchain'' then
        (if js_gt (to_num (change24h s)) (Num 0)
         then js_min (js_add (Num 0.5) (js_div (to_num (change24h s)) (Num 100))) (Num 1)
         else js_max (js_add (Num 0.5) (js_div (to_num (change24h s)) (Num 100))) (Num 0))
      else Num 0.5)"

text \<open>
  The \<open>for\<close> loop of \<open>calculateWeightedScore\<close>, on the pair \<open>(totalWeight, weightedSum)\<close>.
  The weights are finite numbers, so \<open>totalWeight\<close> is; \<open>weightedSum\<close> may become \<open>NaN\<close>.
\<close>

fun weighted_loop :: "signal list \<Rightarrow> real \<times> jsnum \<Rightarrow> real \<times> jsnum" where
  "weighted_loop [] acc = acc"
| "weighted_loop (s # ss) (totalWeight, weightedSum) =
     (let w = js_or (weight s) 1;
          score = normalizeSignal s
      in weighted_loop ss (totalWeight + w, js_add weightedSum (js_mul score (Num w))))"

definition calculateWeightedScore :: "signal list \<Rightarrow> jsnum" where
  "calculateWeightedScore sigs =
     (if length sigs = 0 then Num 0.5
      else (case weighted_loop sigs (0, Num 0) of
              (totalWeight, weightedSum) \<Rightarrow>
                if 0 < totalWeight then js_div weightedSum (Num totalWeight) else Num 0.5))"

text \<open>
  The signal data model as the specification words it: a sentiment, when present, lies in
  \<open>[-1, 1]\<close>, and the weight is positive.
\<close>

definition data_model_signal :: "signal \<Rightarrow> bool" where
  "data_model_signal s =
     ((case sentiment s of None \<Rightarrow> True | Some x \<Rightarrow> - 1 \<le> x \<and> x \<le> 1) \<and>
      (case weight s of None \<Rightarrow> False | Some w \<Rightarrow> 0 < w))"

text \<open>
  The signals the fetchers of the skill produce: a news or social signal carries a
  sentiment in \<open>[-1, 1]\<close>, an on-chain signal carries \<open>change24h\<close>, and the weight is
  positive when present.
\<close>

definition produced_signal :: "signal \<Rightarrow> bool" where
  "produced_signal s =
     ((case weight s of None \<Rightarrow> True | Some w \<Rightarrow> 0 < w) \<and>
      (if sig_type s = Some ''news'' \<or> sig_type s = Some ''social''
       then (case sentiment s of None \<Rightarrow> False | Some x \<Rightarrow> - 1 \<le> x \<and> x \<le> 1)
       else if sig_type s = Some ''onchain'' then change24h s \<noteq> None
       else True))"

subsection \<open>The aggregation cache\<close>

record aggregate_result =
  result_signals :: "signal list"
  result_score :: jsnum
  result_timestamp :: int
  result_sourceCount :: nat

record cache_entry =
  entry_data :: aggregate_result
  entry_timestamp :: int

text \<open>
  The state of the skill: the resolved configuration (\<open>sources\<close>, \<open>cacheDuration\<close> in
  milliseconds) and the cache, a \<open>Map\<close> from cache key to entry.
\<close>

record aggregation_skill =
  sources :: "string list"
  cacheDuration :: int
  cache :: "string \<rightharpoonup> cache_entry"

text \<open>The skill the constructor builds from an empty \<open>config\<close>: a cache duration of 5 minutes.\<close>

definition new_aggregation_skill :: aggregation_skill where
  "new_aggregation_skill =
     \<lparr>sources = [''news'', ''social'', ''onchain''], cacheDuration = 5 * 60 * 1000,
      cache = Map.empty\<rparr>"

text \<open>
  A market is a string or an object with an optional \<open>id\<close>; \<open>market.id || market\<close> inside
  the template string of the cache key.
\<close>

datatype market = MarketString string | MarketObject "string option"

fun market_key :: "market \<Rightarrow> string" where
  "market_key (MarketString s) = s"
| "market_key (MarketObject None) = ''[object Object]''"
| "market_key (MarketObject (Some i)) = (if i = [] then ''[object Object]'' else i)"

definition cacheKey :: "string \<Rightarrow> market \<Rightarrow> string" where
  "cacheKey category m = category @ ''-'' @ market_key m"

text \<open>
  What one call of \<open>aggregate\<close> reads from outside: the clock at the cache check
  (\<open>Date.now()\<close>), the outcome of each source fetch (\<open>None\<close> for a rejected promise), the
  clock for the result's timestamp and the clock when the entry is stored.
\<close>

record fetch_env =
  now_check :: int
  fetchNewsSignals :: "signal list option"
  fetchSocialSignals :: "signal list option"
  fetchOnChainSignals :: "signal list option"
  now_result :: int
  now_store :: int

text \<open>The condition of the cache hit: an entry exists and is younger than \<open>cacheDuration\<close>.\<close>

definition cache_hit :: "aggregation_skill \<Rightarrow> int \<Rightarrow> string \<Rightarrow> bool" where
  "cache_hit this now k =
     (case cache this k of None \<Rightarrow> False
      | Some cached \<Rightarrow> now - entry_timestamp cached < cacheDuration this)"

text \<open>The part of \<open>aggregate\<close> after the cache check: fetch, score, store.\<close>

definition aggregate_miss ::
  "aggregation_skill \<Rightarrow> fetch_env \<Rightarrow> string
     \<Rightarrow> aggregate_result \<times> aggregation_skill \<times> string list" where
  "aggregate_miss this env k =
     (let fetches =
            (if ''news'' \<in> set (sources this) then [(''news'', fetchNewsSignals env)] else []) @
            (if ''social'' \<in> set (sources this) then [(''social'', fetchSocialSignals env)] else []) @
            (if ''onchain'' \<in> set (sources this) then [(''onchain'', fetchOnChainSignals env)] else []);
          sigs = concat (List.map_filter snd fetches);
          weightedScore = calculateWeightedScore sigs;
          result = \<lparr>result_signals = sigs, result_score = weightedScore,
                    result_timestamp = now_result env, result_sourceCount = length sigs\<rparr>
      in (result,
          this\<lparr>cache := (cache this)(k \<mapsto> \<lparr>entry_data = result, entry_timestamp = now_store env\<rparr>)\<rparr>,
          map fst fetches))"

definition clearCache :: "aggregation_skill \<Rightarrow> aggregation_skill" where
  "clearCache this = this\<lparr>cache := Map.empty\<rparr>"

text \<open>
  \<open>aggregate\<close> returns the result, the skill with its cache updated, and the list of the
  sources it fetched from, in call order.
\<close>

definition aggregate ::
  "aggregation_skill \<Rightarrow> fetch_env \<Rightarrow> market \<Rightarrow> string
     \<Rightarrow> aggregate_result \<times> aggregation_skill \<times> string list" where
  "aggregate this env m category =
     (let k = cacheKey category m in
      case cache this k of
        Some cached \<Rightarrow>
          if now_check env - entry_timestamp cached < cacheDuration this
          then (entry_data cached, this, [])
          else aggregate_miss this env k
      | None \<Rightarrow> aggregate_miss this env k)"

section \<open>ConfidenceScoringSkill\<close>

subsection \<open>The calibration ledger\<close>

text \<open>
  \<open>calibrationData\<close> is a \<open>Map\<close> from market type to \<open>{samples, buckets}\<close>; \<open>buckets\<close> is an
  object keyed by the number \<open>Math.floor(confidence * 10) / 10\<close>, each bucket holding
  \<open>{samples, correct, accuracy}\<close>.  The key of an \<open>undefined\<close> confidence is \<open>NaN\<close>, a key like
  any other: \<open>recordOutcome(undefined, \<dots>)\<close> stores a bucket under it and a lookup with an
  \<open>undefined\<close> confidence finds that bucket.  A bucket is created without \<open>accuracy\<close> and
  receives it from the loop that ends the same call of \<open>recordOutcome\<close>, so every bucket of
  a stored ledger has one; the value given at creation here is overwritten by that loop.
\<close>

record bucket =
  bucket_samples :: nat
  bucket_correct :: nat
  accuracy :: real

record calibration =
  cal_samples :: nat
  buckets :: "jsnum \<rightharpoonup> bucket"

type_synonym ledger = "string \<rightharpoonup> calibration"

text \<open>\<open>Math.floor(confidence * 10) / 10\<close>, for a confidence that may be \<open>undefined\<close>.\<close>

definition bucket_of :: "real option \<Rightarrow> jsnum" where
  "bucket_of c = js_div (js_floor (js_mul (to_num c) (Num 10))) (Num 10)"

text \<open>The loop \<open>for (const b in cal.buckets)\<close>: every bucket's accuracy is recomputed.\<close>

definition recalculate :: "(jsnum \<rightharpoonup> bucket) \<Rightarrow> (jsnum \<rightharpoonup> bucket)" where
  "recalculate bs =
     (\<lambda>b. map_option
            (\<lambda>bucketData. bucketData\<lparr>accuracy :=
               real (bucket_correct bucketData) / real (bucket_samples bucketData)\<rparr>)
            (bs b))"

definition recordOutcome ::
  "ledger \<Rightarrow> real option \<Rightarrow> bool \<Rightarrow> string option \<Rightarrow> ledger" where
  "recordOutcome calibrationData predictedConfidence actualOutcome marketType =
     (let mt = (case marketType of None \<Rightarrow> ''default'' | Some t \<Rightarrow> t);
          b = bucket_of predictedConfidence;
          cal0 = (case calibrationData mt of
                    None \<Rightarrow> \<lparr>cal_samples = 0, buckets = Map.empty\<rparr>
                  | Some cal \<Rightarrow> cal);
          cal1 = cal0\<lparr>cal_samples := cal_samples cal0 + 1\<rparr>;
          b0 = (case buckets cal1 b of
                  None \<Rightarrow> \<lparr>bucket_samples = 0, bucket_correct = 0, accuracy = 0\<rparr>
                | Some bucketData \<Rightarrow> bucketData);
          b1 = b0\<lparr>bucket_samples := bucket_samples b0 + 1\<rparr>;
          b2 = (if actualOutcome then b1\<lparr>bucket_correct := bucket_correct b1 + 1\<rparr> else b1)
      in calibrationData(mt \<mapsto> cal1\<lparr>buckets := recalculate ((buckets cal1)(b \<mapsto> b2))\<rparr>))"

text \<open>
  The ledger after a sequence of \<open>recordOutcome\<close> calls on a new skill (the latest call
  first in the list): the ledgers the program can hold.
\<close>

fun ledger_after :: "(real option \<times> bool \<times> string option) list \<Rightarrow> ledger" where
  "ledger_after [] = Map.empty"
| "ledger_after (call # calls) =
     (case call of (c, outcome, mt) \<Rightarrow> recordOutcome (ledger_after calls) c outcome mt)"

text \<open>
  \<open>n\<close> further calls \<open>recordOutcome(cs i, true, mt)\<close>, for \<open>i = 0, \<dots>, n - 1\<close> in this order.
\<close>

fun record_correct ::
  "(nat \<Rightarrow> real option) \<Rightarrow> nat \<Rightarrow> string option \<Rightarrow> ledger \<Rightarrow> ledger" where
  "record_correct cs 0 mt l = l"
| "record_correct cs (Suc n) mt l = recordOutcome (record_correct cs n mt l) (cs n) True mt"

text \<open>The bucket of confidence \<open>c\<close> for market type \<open>mt\<close>, and its accuracy (\<open>0\<close> if absent).\<close>

definition bucket_at :: "ledger \<Rightarrow> string option \<Rightarrow> real option \<Rightarrow> bucket option" where
  "bucket_at l mt c =
     (case l (case mt of None \<Rightarrow> ''default'' | Some t \<Rightarrow> t) of
        None \<Rightarrow> None
      | Some cal \<Rightarrow> buckets cal (bucket_of c))"

definition accuracy_at :: "ledger \<Rightarrow> string option \<Rightarrow> real option \<Rightarrow> real" where
  "accuracy_at l mt c = (case bucket_at l mt c of None \<Rightarrow> 0 | Some bd \<Rightarrow> accuracy bd)"

text \<open>
  The counters of that bucket (\<open>0\<close> if absent), and the relation between the fields of a
  stored bucket: it has a sample, no more correct outcomes than samples, and its accuracy is
  their quotient.
\<close>

definition samples_at :: "ledger \<Rightarrow> string option \<Rightarrow> real option \<Rightarrow> nat" where
  "samples_at l mt c = (case bucket_at l mt c of None \<Rightarrow> 0 | Some bd \<Rightarrow> bucket_samples bd)"

definition correct_at :: "ledger \<Rightarrow> string option \<Rightarrow> real option \<Rightarrow> nat" where
  "correct_at l mt c = (case bucket_at l mt c of None \<Rightarrow> 0 | Some bd \<Rightarrow> bucket_correct bd)"

text \<open>The \<open>samples\<close> counter of the ledger of market type \<open>mt\<close> (\<open>0\<close> if absent).\<close>

definition samples_total :: "ledger \<Rightarrow> string option \<Rightarrow> nat" where
  "samples_total l mt =
     (case l (case mt of None \<Rightarrow> ''default'' | Some t \<Rightarrow> t) of
        None \<Rightarrow> 0
      | Some cal \<Rightarrow> cal_samples cal)"

definition bucket_ok :: "bucket \<Rightarrow> bool" where
  "bucket_ok bd =
     (0 < bucket_samples bd \<and> bucket_correct bd \<le> bucket_samples bd \<and>
      accuracy bd = real (bucket_correct bd) / real (bucket_samples bd))"

definition ledger_ok :: "ledger \<Rightarrow> bool" where
  "ledger_ok l = (\<forall>t cal b bd. l t = Some cal \<longrightarrow> buckets cal b = Some bd \<longrightarrow> bucket_ok bd)"

subsection \<open>The confidence score\<close>

record raw_prediction =
  rawConfidence :: "real option"
  model :: "string option"
  dataQuality :: "real option"
  marketType :: "string option"

text \<open>The \<open>signals\<close> argument of \<open>calculate\<close>: an object, each property of which may be missing.\<close>

record signal_set =
  signals :: "signal list option"
  volatility :: "real option"
  liquidity :: "real option"

record performance =
  perf_total :: "real option"
  winRate :: "real option"
  recentWinRate :: "real option"
  pnl :: "real option"

record scoring_config =
  baseWeight :: real
  signalWeight :: real
  historyWeight :: real
  calibrationEnabled :: bool
  minSamplesForHistory :: real

record scoring_skill =
  config :: scoring_config
  calibrationData :: ledger

text \<open>The configuration the constructor builds from an empty \<open>config\<close>.\<close>

definition default_config :: scoring_config where
  "default_config = \<lparr>baseWeight = 0.3, signalWeight = 0.4, historyWeight = 0.3,
     calibrationEnabled = True, minSamplesForHistory = 10\<rparr>"

text \<open>\<open>score\<close> after the adjustment for the prediction methodology.\<close>

definition model_score :: "raw_prediction \<Rightarrow> real" where
  "model_score prediction =
     (let score = js_or (rawConfidence prediction) 0.5
      in if model prediction = Some ''ensemble'' then score * 1.1
         else if model prediction = Some ''naive'' then score * 0.9
         else score)"

text \<open>\<open>if (prediction.dataQuality)\<close> holds for a present, non-zero number.\<close>

definition calculateBaseConfidence :: "raw_prediction \<Rightarrow> real" where
  "calculateBaseConfidence prediction =
     (let score = model_score prediction;
          score = (case dataQuality prediction of
                     None \<Rightarrow> score
                   | Some dq \<Rightarrow> if dq \<noteq> 0 then score * (0.5 + dq * 0.5) else score)
      in min score 0.95)"

definition calculateVariance :: "real list \<Rightarrow> real" where
  "calculateVariance vs =
     (let mean = foldl (\<lambda>a b. a + b) 0 vs / real (length vs);
          squaredDiffs = map (\<lambda>v. (v - mean) ^ 2) vs
      in foldl (\<lambda>a b. a + b) 0 squaredDiffs / real (length vs))"

definition calculateSignalConfidence :: "signal_set option \<Rightarrow> real" where
  "calculateSignalConfidence sigset =
     (case sigset of
        None \<Rightarrow> 0.5
      | Some sg \<Rightarrow>
         (case signals sg of
            None \<Rightarrow> 0.5
          | Some sigs \<Rightarrow>
             if length sigs = 0 then 0.5
             else
               (let sentiments = List.map_filter sentiment sigs;
                    consensusScore =
                      (if 1 < length sentiments
                       then max 0 (1 - calculateVariance sentiments)
                       else 0.5);
                    sourceTypes = length (remdups (map sig_type sigs));
                    diversityScore = min (real sourceTypes / 3) 1;
                    avgSignalStrength =
                      foldl (\<lambda>sum s. sum + \<bar>js_or (sentiment s) 0.5\<bar>) 0 sigs / real (length sigs)
                in consensusScore * 0.4 + diversityScore * 0.3 + avgSignalStrength * 0.3)))"

text \<open>
  \<open>getCalibrationForConfidence\<close> reads the ledger of market type \<open>'default'\<close>:
  \<open>cal?.buckets?.[bucket]\<close>, with the key \<open>NaN\<close> for an \<open>undefined\<close> confidence.
\<close>

definition getCalibrationForConfidence :: "scoring_skill \<Rightarrow> real option \<Rightarrow> bucket option" where
  "getCalibrationForConfidence this c =
     (let b = bucket_of c
      in case calibrationData this ''default'' of
           None \<Rightarrow> None
         | Some cal \<Rightarrow> buckets cal b)"

text \<open>\<open>score\<close> after the adjustment for the recent performance trend.\<close>

definition trend_score :: "performance \<Rightarrow> real" where
  "trend_score perf =
     (let score = js_or (winRate perf) 0.5
      in case recentWinRate perf of
           None \<Rightarrow> score
         | Some r \<Rightarrow> if r \<noteq> 0 then score * 0.6 + r * 0.4 else score)"

text \<open>The penalty for a negative PnL; \<open>undefined < 0\<close> is false.\<close>

definition pnl_penalty :: "performance \<Rightarrow> real \<Rightarrow> real" where
  "pnl_penalty perf score =
     (case pnl perf of None \<Rightarrow> score | Some x \<Rightarrow> if x < 0 then score * 0.8 else score)"

definition calculateHistoryConfidence ::
  "scoring_skill \<Rightarrow> performance option \<Rightarrow> raw_prediction \<Rightarrow> real" where
  "calculateHistoryConfidence this perf_opt prediction =
     (case perf_opt of
        None \<Rightarrow> 0.5
      | Some perf \<Rightarrow>
         if (case perf_total perf of None \<Rightarrow> False
             | Some t \<Rightarrow> t < minSamplesForHistory (config this))
         then 0.5
         else
           (let score = trend_score perf;
                score = (case getCalibrationForConfidence this (rawConfidence prediction) of
                           None \<Rightarrow> score
                         | Some calibration \<Rightarrow> score * 0.7 + accuracy calibration * 0.3)
            in pnl_penalty perf score))"

definition applyCalibration :: "scoring_skill \<Rightarrow> real \<Rightarrow> string option \<Rightarrow> real" where
  "applyCalibration this conf mt =
     (let cal = (case (case mt of None \<Rightarrow> None | Some t \<Rightarrow> calibrationData this t) of
                   Some c \<Rightarrow> Some c
                 | None \<Rightarrow> calibrationData this ''default'')
      in case cal of
           None \<Rightarrow> conf
         | Some c \<Rightarrow>
            if cal_samples c < 20 then conf
            else (case buckets c (bucket_of (Some conf)) of
                    None \<Rightarrow> conf
                  | Some bucketData \<Rightarrow>
                     if 5 < bucket_samples bucketData
                     then conf + (accuracy bucketData - conf) * 0.3
                     else conf))"

text \<open>
  \<open>applyMarketAdjustments\<close> reads \<open>signals.volatility\<close> without a guard: for a \<open>null\<close> or
  \<open>undefined\<close> \<open>signals\<close> it raises a \<open>TypeError\<close>.
\<close>

definition applyMarketAdjustments :: "real \<Rightarrow> signal_set option \<Rightarrow> error + real" where
  "applyMarketAdjustments conf sigset =
     (case sigset of
        None \<Rightarrow> Inl TypeError
      | Some sg \<Rightarrow>
         (let adjusted = conf;
              adjusted = (case volatility sg of
                            None \<Rightarrow> adjusted
                          | Some v \<Rightarrow>
                             if v \<noteq> 0 then
                               (if 0.8 < v then adjusted * 0.85
                                else if 0.5 < v then adjusted * 0.95
                                else adjusted)
                             else adjusted);
              adjusted = (case liquidity sg of
                            None \<Rightarrow> adjusted
                          | Some l \<Rightarrow> if l < 10000 then adjusted * 0.9 else adjusted)
          in Inr adjusted))"

text \<open>The weighted sum of the three components, before calibration.\<close>

definition combined :: "scoring_skill \<Rightarrow> raw_prediction \<Rightarrow> signal_set option
     \<Rightarrow> performance option \<Rightarrow> real" where
  "combined this prediction sigset perf =
     calculateBaseConfidence prediction * baseWeight (config this) +
     calculateSignalConfidence sigset * signalWeight (config this) +
     calculateHistoryConfidence this perf prediction * historyWeight (config this)"

definition calculate :: "scoring_skill \<Rightarrow> raw_prediction \<Rightarrow> signal_set option
     \<Rightarrow> performance option \<Rightarrow> error + real" where
  "calculate this prediction sigset perf =
     (let conf = combined this prediction sigset perf;
          conf = (if calibrationEnabled (config this)
                  then applyCalibration this conf (marketType prediction)
                  else conf)
      in case applyMarketAdjustments conf sigset of
           Inl e \<Rightarrow> Inl e
         | Inr conf \<Rightarrow> Inr (min (max conf 0.01) 0.99))"

section \<open>Properties of position sizing\<close>

lemma js_or_nonzero: "d \<noteq> 0 \<Longrightarrow> js_or x d \<noteq> 0"
  by (cases x) auto

lemma odds_b_Num: "odds_b prediction = Num (1 / js_or (marketPrice prediction) 0.5 - 1)"
proof -
  have "js_or (marketPrice prediction) 0.5 \<noteq> 0"
    by (rule js_or_nonzero) simp
  then show ?thesis by (simp add: odds_b_def js_sub_def)
qed

lemma kelly_raw_Num:
  assumes "js_or (marketPrice prediction) 0.5 \<noteq> 1"
  shows "kelly_raw prediction =
     Num (((1 / js_or (marketPrice prediction) 0.5 - 1) * confidence prediction
            - (1 - confidence prediction))
          / (1 / js_or (marketPrice prediction) 0.5 - 1))"
proof -
  define b where "b = 1 / js_or (marketPrice prediction) 0.5 - 1"
  have nz: "js_or (marketPrice prediction) 0.5 \<noteq> 0"
    by (rule js_or_nonzero) simp
  have b: "b \<noteq> 0" using assms nz by (simp add: b_def)
  have "odds_b prediction = Num b" by (simp add: odds_b_Num b_def)
  then have "kelly_raw prediction
      = Num ((b * confidence prediction - (1 - confidence prediction)) / b)"
    using b by (simp add: kelly_raw_def Let_def js_sub_def)
  then show ?thesis by (simp only: b_def)
qed

lemma kelly_raw_price_one:
  assumes "js_or (marketPrice prediction) 0.5 = 1"
  shows "kelly_raw prediction =
     (if confidence prediction = 1 then NaN else signed_inf (1 < confidence prediction))"
proof -
  have "odds_b prediction = Num 0" using assms by (simp add: odds_b_Num)
  then show ?thesis by (simp add: kelly_raw_def Let_def js_sub_def)
qed

lemma calculatePositionSize_Num:
  assumes "kelly_capped prediction = Num k"
  shows "calculatePositionSize this prediction =
     Inr (Num (min (js_or (config_bankroll this) 1000 * k * 0.25)
                   (js_or (agent_maxBetSize this) 100)))"
  using assms by (simp add: calculatePositionSize_def Let_def)

lemma calculatePositionSize_same_price:
  assumes "js_or (marketPrice p1) 0.5 = js_or (marketPrice p2) 0.5"
    and "confidence p1 = confidence p2"
  shows "calculatePositionSize this p1 = calculatePositionSize this p2"
  using assms by (simp add: calculatePositionSize_def kelly_capped_def kelly_raw_def odds_b_def)

text \<open>
  Claim C2, as stated, fails: \<open>calculatePositionSize\<close> raises no validation error.  With
  bankroll 1000 and cap 1000, a market price of 0 returns the size 100 of the default price
  0.5; a market price of 1 returns 0 at confidence 0.7 and \<open>NaN\<close> at confidence 1; a market
  price of 1.5 returns 125; a bankroll of -1000 returns the size -100.
\<close>

theorem position_size_no_validation_counterexample:
  "calculatePositionSize \<lparr>config_bankroll = Some 1000, agent_maxBetSize = Some 1000\<rparr>
      \<lparr>confidence = 0.7, marketPrice = Some 0\<rparr> = Inr (Num 100) \<and>
   calculatePositionSize \<lparr>config_bankroll = Some 1000, agent_maxBetSize = Some 1000\<rparr>
      \<lparr>confidence = 0.7, marketPrice = Some 1\<rparr> = Inr (Num 0) \<and>
   calculatePositionSize \<lparr>config_bankroll = Some 1000, agent_maxBetSize = Some 1000\<rparr>
      \<lparr>confidence = 1, marketPrice = Some 1\<rparr> = Inr NaN \<and>
   calculatePositionSize \<lparr>config_bankroll = Some 1000, agent_maxBetSize = Some 1000\<rparr>
      \<lparr>confidence = 0.7, marketPrice = Some 1.5\<rparr> = Inr (Num 125) \<and>
   calculatePositionSize \<lparr>config_bankroll = Some (- 1000), agent_maxBetSize = Some 1000\<rparr>
      \<lparr>confidence = 0.7, marketPrice = Some 0.5\<rparr> = Inr (Num (- 100)) \<and>
   \<not> raises (calculatePositionSize \<lparr>config_bankroll = Some 1000, agent_maxBetSize = Some 1000\<rparr>
      \<lparr>confidence = 0.7, marketPrice = Some 0\<rparr>) \<and>
   \<not> raises (calculatePositionSize \<lparr>config_bankroll = Some 1000, agent_maxBetSize = Some 1000\<rparr>
      \<lparr>confidence = 0.7, marketPrice = Some 1\<rparr>)"
  by (simp add: calculatePositionSize_def kelly_capped_def kelly_raw_def odds_b_def js_sub_def
      raises_def signed_inf_def)

text \<open>
  Claim C2, amended: \<open>calculatePositionSize\<close> validates nothing and never raises.  A market
  price of 0 is priced like a missing one (the default 0.5).  A market price of 1 makes the
  odds \<open>b\<close> zero: the result is \<open>NaN\<close> when the confidence is 1, and otherwise the finite size
  \<open>min(bankroll \<times> k \<times> 0.25, maxBetSize)\<close> with \<open>k = 0\<close> for a confidence below 1 and
  \<open>k = 0.5\<close> for one above.
\<close>

theorem position_size_never_raises:
  "\<not> raises (calculatePositionSize this prediction) \<and>
   calculatePositionSize this (prediction\<lparr>marketPrice := Some 0\<rparr>)
     = calculatePositionSize this (prediction\<lparr>marketPrice := None\<rparr>) \<and>
   calculatePositionSize this (prediction\<lparr>marketPrice := Some 1\<rparr>)
     = Inr (if confidence prediction = 1 then NaN
            else Num (min (js_or (config_bankroll this) 1000
                             * (if 1 < confidence prediction then 0.5 else 0) * 0.25)
                          (js_or (agent_maxBetSize this) 100)))"
proof -
  let ?p1 = "prediction\<lparr>marketPrice := Some 1\<rparr>"
  have a: "\<not> raises (calculatePositionSize this prediction)"
    by (simp add: raises_def calculatePositionSize_def Let_def)
  have b: "calculatePositionSize this (prediction\<lparr>marketPrice := Some 0\<rparr>)
     = calculatePositionSize this (prediction\<lparr>marketPrice := None\<rparr>)"
    by (rule calculatePositionSize_same_price) simp_all
  have "js_or (marketPrice ?p1) 0.5 = 1" by simp
  from kelly_raw_price_one[OF this]
  have kr: "kelly_raw ?p1
      = (if confidence prediction = 1 then NaN else signed_inf (1 < confidence prediction))"
    by simp
  have c: "calculatePositionSize this ?p1
     = Inr (if confidence prediction = 1 then NaN
            else Num (min (js_or (config_bankroll this) 1000
                             * (if 1 < confidence prediction then 0.5 else 0) * 0.25)
                          (js_or (agent_maxBetSize this) 100)))"
    by (simp add: calculatePositionSize_def kelly_capped_def kr signed_inf_def Let_def)
  from a b c show ?thesis by blast
qed

text \<open>
  Claim C3, as stated, fails: for confidence 0.7, market price 0.55, bankroll 1000 and cap
  1000 the Kelly fraction is exactly 1/3, not within 0.01 of 0.474, and the size is exactly
  250/3, not within 1 of 118.5.
\<close>

theorem position_size_scenario_counterexample:
  "kelly_raw \<lparr>confidence = 0.7, marketPrice = Some 0.55\<rparr> = Num (1/3) \<and>
   \<not> js_between (0.474 - 0.01) (0.474 + 0.01)
        (kelly_raw \<lparr>confidence = 0.7, marketPrice = Some 0.55\<rparr>) \<and>
   calculatePositionSize \<lparr>config_bankroll = Some 1000, agent_maxBetSize = Some 1000\<rparr>
      \<lparr>confidence = 0.7, marketPrice = Some 0.55\<rparr> = Inr (Num (250/3)) \<and>
   \<not> returns_between (118.5 - 1) (118.5 + 1)
      (calculatePositionSize \<lparr>config_bankroll = Some 1000, agent_maxBetSize = Some 1000\<rparr>
         \<lparr>confidence = 0.7, marketPrice = Some 0.55\<rparr>)"
  by (simp add: calculatePositionSize_def kelly_capped_def kelly_raw_def odds_b_def js_sub_def
      returns_between_def)

text \<open>
  Claim C3, amended: for confidence 0.7, market price 0.55, bankroll 1000 and cap 1000,
  \<open>b = 1/0.55 - 1 = 9/11\<close>, the Kelly fraction \<open>(b \<times> 0.7 - 0.3) / b\<close> is 1/3 (below the cap
  0.5), and the size is \<open>1000 \<times> 1/3 \<times> 0.25\<close>, between 83.33 and 83.34, and at most 1000.
\<close>

theorem position_size_scenario:
  "odds_b \<lparr>confidence = 0.7, marketPrice = Some 0.55\<rparr> = Num (9/11) \<and>
   kelly_capped \<lparr>confidence = 0.7, marketPrice = Some 0.55\<rparr> = Num (1/3) \<and>
   returns_between 83.33 83.34
      (calculatePositionSize \<lparr>config_bankroll = Some 1000, agent_maxBetSize = Some 1000\<rparr>
         \<lparr>confidence = 0.7, marketPrice = Some 0.55\<rparr>) \<and>
   returns_between 0 1000
      (calculatePositionSize \<lparr>config_bankroll = Some 1000, agent_maxBetSize = Some 1000\<rparr>
         \<lparr>confidence = 0.7, marketPrice = Some 0.55\<rparr>)"
  by (simp add: calculatePositionSize_def kelly_capped_def kelly_raw_def odds_b_def js_sub_def
      returns_between_def)

text \<open>
  Claim C4, as stated, fails at bankroll 0, which \<open>this.config.bankroll || 1000\<close> replaces
  by 1000: with cap 1000, confidence 0.7 and market price 0.5 the size is 100, above
  \<open>min(0 \<times> 0.5 \<times> 0.25, 1000) = 0\<close>.
\<close>

theorem position_size_zero_bankroll_counterexample:
  "calculatePositionSize \<lparr>config_bankroll = Some 0, agent_maxBetSize = Some 1000\<rparr>
      \<lparr>confidence = 0.7, marketPrice = Some 0.5\<rparr> = Inr (Num 100) \<and>
   \<not> returns_between 0 (min (0 * 0.5 * 0.25) 1000)
      (calculatePositionSize \<lparr>config_bankroll = Some 0, agent_maxBetSize = Some 1000\<rparr>
         \<lparr>confidence = 0.7, marketPrice = Some 0.5\<rparr>)"
  by (simp add: calculatePositionSize_def kelly_capped_def kelly_raw_def odds_b_def js_sub_def
      returns_between_def)

text \<open>
  Claim C4, amended: for every confidence \<open>c\<close>, market price \<open>m\<close> in the open interval
  \<open>(0, 1)\<close>, bankroll \<open>B > 0\<close> and cap \<open>M > 0\<close>, the Kelly fraction after the cap is a number
  in \<open>[0, 0.5]\<close> and \<open>calculatePositionSize\<close> returns a number in
  \<open>[0, min(B \<times> 0.5 \<times> 0.25, M)]\<close>.
\<close>

theorem position_size_bounds:
  assumes "0 < m" "m < 1" "0 < B" "0 < M"
  shows "\<exists>k r. kelly_capped \<lparr>confidence = c, marketPrice = Some m\<rparr> = Num k \<and>
     0 \<le> k \<and> k \<le> 0.5 \<and>
     calculatePositionSize \<lparr>config_bankroll = Some B, agent_maxBetSize = Some M\<rparr>
        \<lparr>confidence = c, marketPrice = Some m\<rparr> = Inr (Num r) \<and>
     0 \<le> r \<and> r \<le> min (B * 0.5 * 0.25) M"
proof -
  let ?p = "\<lparr>confidence = c, marketPrice = Some m\<rparr>"
  let ?sk = "\<lparr>config_bankroll = Some B, agent_maxBetSize = Some M\<rparr>"
  have "js_or (marketPrice ?p) 0.5 \<noteq> 1" using assms by simp
  from kelly_raw_Num[OF this] obtain x where "kelly_raw ?p = Num x" by blast
  then have kc: "kelly_capped ?p = Num (max 0 (min x 0.5))" by (simp add: kelly_capped_def)
  define k where "k = max 0 (min x 0.5)"
  have k: "0 \<le> k" "k \<le> 0.5" by (simp_all add: k_def)
  have r: "calculatePositionSize ?sk ?p = Inr (Num (min (B * k * 0.25) M))"
    using calculatePositionSize_Num[OF kc, of ?sk] assms by (simp add: k_def)
  have "0 \<le> B * k" using k assms by simp
  then have lo: "0 \<le> min (B * k * 0.25) M" using assms by simp
  have "B * k \<le> B * 0.5" using k assms by (intro mult_left_mono) simp_all
  then have hi: "min (B * k * 0.25) M \<le> min (B * 0.5 * 0.25) M"
    by (simp add: min.coboundedI1)
  from kc k r lo hi show ?thesis unfolding k_def by blast
qed

theorem position_size_bounds_witness:
  "(0::real) < 0.55 \<and> (0.55::real) < 1 \<and> (0::real) < 1000 \<and>
   (\<exists>k r. kelly_capped \<lparr>confidence = 0.7, marketPrice = Some 0.55\<rparr> = Num k \<and>
     0 \<le> k \<and> k \<le> 0.5 \<and>
     calculatePositionSize \<lparr>config_bankroll = Some 1000, agent_maxBetSize = Some 1000\<rparr>
        \<lparr>confidence = 0.7, marketPrice = Some 0.55\<rparr> = Inr (Num r) \<and>
     0 \<le> r \<and> r \<le> min (1000 * 0.5 * 0.25) 1000)"
  using position_size_bounds[of "0.55" 1000 1000 "0.7"] by simp

text \<open>
  Claim C10, as stated, fails: the size at market price 0 is not always non-negative.  With
  bankroll -1000, cap 1000 and confidence 0.7 it is -100, and with bankroll 1000 and cap -5
  it is -5; both equal the size at market price 0.5.
\<close>

theorem position_size_zero_price_negative_counterexample:
  "calculatePositionSize \<lparr>config_bankroll = Some (- 1000), agent_maxBetSize = Some 1000\<rparr>
      \<lparr>confidence = 0.7, marketPrice = Some 0\<rparr> = Inr (Num (- 100)) \<and>
   calculatePositionSize \<lparr>config_bankroll = Some (- 1000), agent_maxBetSize = Some 1000\<rparr>
      \<lparr>confidence = 0.7, marketPrice = Some 0.5\<rparr> = Inr (Num (- 100)) \<and>
   \<not> returns_between 0 100
      (calculatePositionSize \<lparr>config_bankroll = Some (- 1000), agent_maxBetSize = Some 1000\<rparr>
         \<lparr>confidence = 0.7, marketPrice = Some 0\<rparr>) \<and>
   calculatePositionSize \<lparr>config_bankroll = Some 1000, agent_maxBetSize = Some (- 5)\<rparr>
      \<lparr>confidence = 0.7, marketPrice = Some 0\<rparr> = Inr (Num (- 5))"
  by (simp add: calculatePositionSize_def kelly_capped_def kelly_raw_def odds_b_def js_sub_def
      returns_between_def)

text \<open>
  Claim C10, amended: a market price of exactly 0 is replaced by the default 0.5, like a
  missing one.  For every skill and prediction, \<open>calculatePositionSize\<close> at market price 0
  returns what it returns at market price 0.5 and at a missing market price; it does not
  raise and the value is a finite number (not \<open>NaN\<close>, not infinite).  The value is
  non-negative when the bankroll in effect (\<open>config.bankroll || 1000\<close>) and the cap in
  effect (\<open>maxBetSize || 100\<close>) are non-negative.
\<close>

theorem position_size_zero_price_default:
  "calculatePositionSize this (prediction\<lparr>marketPrice := Some 0\<rparr>)
     = calculatePositionSize this (prediction\<lparr>marketPrice := Some 0.5\<rparr>) \<and>
   calculatePositionSize this (prediction\<lparr>marketPrice := Some 0\<rparr>)
     = calculatePositionSize this (prediction\<lparr>marketPrice := None\<rparr>) \<and>
   (\<exists>r. calculatePositionSize this (prediction\<lparr>marketPrice := Some 0\<rparr>) = Inr (Num r) \<and>
        (0 \<le> js_or (config_bankroll this) 1000 \<and> 0 \<le> js_or (agent_maxBetSize this) 100
           \<longrightarrow> 0 \<le> r))"
proof -
  let ?p = "prediction\<lparr>marketPrice := Some 0\<rparr>"
  have e1: "calculatePositionSize this ?p
      = calculatePositionSize this (prediction\<lparr>marketPrice := Some 0.5\<rparr>)"
    by (rule calculatePositionSize_same_price) simp_all
  have e2: "calculatePositionSize this ?p
      = calculatePositionSize this (prediction\<lparr>marketPrice := None\<rparr>)"
    by (rule calculatePositionSize_same_price) simp_all
  have "js_or (marketPrice ?p) 0.5 \<noteq> 1" by simp
  from kelly_raw_Num[OF this] obtain x where "kelly_raw ?p = Num x" by blast
  then have kc: "kelly_capped ?p = Num (max 0 (min x 0.5))" by (simp add: kelly_capped_def)
  have k0: "0 \<le> max 0 (min x 0.5)" by simp
  let ?r = "min (js_or (config_bankroll this) 1000 * max 0 (min x 0.5) * 0.25)
                (js_or (agent_maxBetSize this) 100)"
  have r: "calculatePositionSize this ?p = Inr (Num ?r)"
    by (rule calculatePositionSize_Num[OF kc])
  have "0 \<le> js_or (config_bankroll this) 1000 \<and> 0 \<le> js_or (agent_maxBetSize this) 100
      \<longrightarrow> 0 \<le> ?r"
  proof
    assume a: "0 \<le> js_or (config_bankroll this) 1000 \<and> 0 \<le> js_or (agent_maxBetSize this) 100"
    then have "0 \<le> js_or (config_bankroll this) 1000 * max 0 (min x 0.5)"
      using k0 by (intro mult_nonneg_nonneg) simp_all
    then have "0 \<le> js_or (config_bankroll this) 1000 * max 0 (min x 0.5) * 0.25"
      by simp
    with a show "0 \<le> ?r" by (simp only: min.bounded_iff)
  qed
  with r e1 e2 show ?thesis by blast
qed

theorem position_size_zero_price_default_witness:
  "calculatePositionSize \<lparr>config_bankroll = Some 1000, agent_maxBetSize = Some 1000\<rparr>
      \<lparr>confidence = 0.7, marketPrice = Some 0\<rparr> = Inr (Num 100) \<and>
   calculatePositionSize \<lparr>config_bankroll = Some 1000, agent_maxBetSize = Some 1000\<rparr>
      \<lparr>confidence = 0.7, marketPrice = Some 0.5\<rparr> = Inr (Num 100) \<and>
   calculatePositionSize \<lparr>config_bankroll = Some 1000, agent_maxBetSize = Some 1000\<rparr>
      \<lparr>confidence = 0.7, marketPrice = None\<rparr> = Inr (Num 100) \<and>
   0 \<le> js_or (Some 1000) 1000 \<and> 0 \<le> js_or (Some 1000) 100"
  using position_size_zero_price_default
    [of "\<lparr>config_bankroll = Some 1000, agent_maxBetSize = Some 1000\<rparr>"
        "\<lparr>confidence = 0.7, marketPrice = Some 0\<rparr>"]
  by (simp add: calculatePositionSize_def kelly_capped_def kelly_raw_def odds_b_def js_sub_def)

section \<open>Properties of signal aggregation\<close>

lemma normalizeSignal_range:
  assumes "produced_signal s"
  shows "\<exists>x. normalizeSignal s = Num x \<and> 0 \<le> x \<and> x \<le> 1"
proof -
  consider (sent) "sig_type s = Some ''news'' \<or> sig_type s = Some ''social''"
    | (chain) "sig_type s = Some ''onchain''"
    | (other) "sig_type s \<noteq> Some ''news''" "sig_type s \<noteq> Some ''social''" "sig_type s \<noteq> Some ''onchain''"
    by blast
  then show ?thesis
  proof cases
    case sent
    with assms obtain x where x: "sentiment s = Some x" "- 1 \<le> x" "x \<le> 1"
      by (auto simp: produced_signal_def split: option.splits)
    have "normalizeSignal s = Num ((x + 1) / 2)"
      using sent x by (auto simp: normalizeSignal_def)
    moreover have "0 \<le> (x + 1) / 2" "(x + 1) / 2 \<le> 1" using x by simp_all
    ultimately show ?thesis by blast
  next
    case chain
    with assms obtain c where c: "change24h s = Some c"
      by (auto simp: produced_signal_def split: option.splits if_splits)
    have "normalizeSignal s = Num (if 0 < c then min (0.5 + c / 100) 1 else max (0.5 + c / 100) 0)"
      using chain c by (simp add: normalizeSignal_def)
    moreover have "0 \<le> (if 0 < c then min (0.5 + c / 100) 1 else max (0.5 + c / 100) 0)"
      by simp
    moreover have "(if 0 < c then min (0.5 + c / 100) 1 else max (0.5 + c / 100) 0) \<le> 1"
      by simp
    ultimately show ?thesis by blast
  next
    case other
    then have "normalizeSignal s = Num 0.5" by (simp add: normalizeSignal_def)
    then show ?thesis by (intro exI[of _ "0.5"]) simp
  qed
qed

lemma produced_weight_pos: "produced_signal s \<Longrightarrow> 0 < js_or (weight s) 1"
  by (cases "weight s") (auto simp: produced_signal_def)

lemma weighted_loop_inv:
  assumes "list_all produced_signal ss" "0 \<le> ws" "ws \<le> tw"
  shows "\<exists>tw' ws'. weighted_loop ss (tw, Num ws) = (tw', Num ws') \<and> 0 \<le> ws' \<and> ws' \<le> tw'
            \<and> tw \<le> tw' \<and> (ss \<noteq> [] \<longrightarrow> tw < tw')"
  using assms
proof (induction ss arbitrary: tw ws)
  case Nil
  then show ?case by simp
next
  case (Cons s ss)
  from Cons.prems have ps: "produced_signal s" and rest: "list_all produced_signal ss" by simp_all
  from normalizeSignal_range[OF ps] obtain x where x: "normalizeSignal s = Num x" "0 \<le> x" "x \<le> 1"
    by blast
  define w where "w = js_or (weight s) 1"
  have w: "0 < w" unfolding w_def by (rule produced_weight_pos[OF ps])
  have step: "weighted_loop (s # ss) (tw, Num ws) = weighted_loop ss (tw + w, Num (ws + x * w))"
    by (simp add: x w_def Let_def)
  have a: "0 \<le> ws + x * w" using Cons.prems(2) x w by simp
  have "x * w \<le> w" using x w by (simp add: mult_left_le_one_le)
  then have b: "ws + x * w \<le> tw + w" using Cons.prems(3) by simp
  from Cons.IH[OF rest a b] obtain tw' ws' where
    r: "weighted_loop ss (tw + w, Num (ws + x * w)) = (tw', Num ws')" "0 \<le> ws'" "ws' \<le> tw'" "tw + w \<le> tw'"
    by blast
  have "tw < tw'" using r(4) w by simp
  with r step show ?case by auto
qed

text \<open>
  Claim C5, amended: for every signal list in which each news or social signal carries a
  sentiment in \<open>[-1, 1]\<close>, each on-chain signal carries \<open>change24h\<close>, and each weight
  is positive when present, \<open>calculateWeightedScore\<close> returns a number in \<open>[0, 1]\<close>; for
  the empty list it returns exactly 0.5.
\<close>

theorem weighted_score_range:
  assumes "list_all produced_signal sigs"
  shows "js_between 0 1 (calculateWeightedScore sigs) \<and> calculateWeightedScore [] = Num 0.5"
proof -
  have e: "calculateWeightedScore [] = Num 0.5" by (simp add: calculateWeightedScore_def)
  show ?thesis
  proof (cases sigs)
    case Nil
    then show ?thesis using e by simp
  next
    case (Cons s ss)
    from weighted_loop_inv[OF assms, of 0 0] Cons obtain tw ws where
      r: "weighted_loop sigs (0, Num 0) = (tw, Num ws)" "0 \<le> ws" "ws \<le> tw" "0 < tw"
      by auto
    then have "calculateWeightedScore sigs = Num (ws / tw)"
      using Cons by (simp add: calculateWeightedScore_def)
    moreover have "0 \<le> ws / tw" "ws / tw \<le> 1" using r by simp_all
    ultimately show ?thesis using e by simp
  qed
qed

theorem weighted_score_range_witness:
  "list_all produced_signal
     [\<lparr>sig_type = Some ''news'', sentiment = Some 0.8, change24h = None, weight = Some 0.25\<rparr>,
      \<lparr>sig_type = Some ''onchain'', sentiment = None, change24h = Some 30, weight = Some 0.5\<rparr>] \<and>
   js_between 0 1 (calculateWeightedScore
     [\<lparr>sig_type = Some ''news'', sentiment = Some 0.8, change24h = None, weight = Some 0.25\<rparr>,
      \<lparr>sig_type = Some ''onchain'', sentiment = None, change24h = Some 30, weight = Some 0.5\<rparr>])"
proof -
  have h: "list_all produced_signal
     [\<lparr>sig_type = Some ''news'', sentiment = Some 0.8, change24h = None, weight = Some 0.25\<rparr>,
      \<lparr>sig_type = Some ''onchain'', sentiment = None, change24h = Some 30, weight = Some 0.5\<rparr>]"
    by (simp add: produced_signal_def)
  from weighted_score_range[OF h] h show ?thesis by blast
qed

text \<open>
  Claim C5, as stated, fails: a news signal without a sentiment and with weight 1 meets
  the data model of the claim, and its score \<open>(undefined + 1) / 2\<close> is \<open>NaN\<close>, so the
  weighted score of the one-element list is \<open>NaN\<close>, not a number in \<open>[0, 1]\<close>.
\<close>

theorem weighted_score_missing_sentiment_counterexample:
  "list_all data_model_signal
     [\<lparr>sig_type = Some ''news'', sentiment = None, change24h = None, weight = Some 1\<rparr>] \<and>
   calculateWeightedScore
     [\<lparr>sig_type = Some ''news'', sentiment = None, change24h = None, weight = Some 1\<rparr>] = NaN \<and>
   \<not> js_between 0 1 (calculateWeightedScore
     [\<lparr>sig_type = Some ''news'', sentiment = None, change24h = None, weight = Some 1\<rparr>])"
  by (simp add: data_model_signal_def calculateWeightedScore_def normalizeSignal_def)


lemma aggregate_after_clearCache:
  "aggregate (clearCache this) env m category
     = aggregate_miss (clearCache this) env (cacheKey category m)"
  by (simp add: aggregate_def clearCache_def)

lemma aggregate_miss_stores:
  assumes "aggregate_miss this env k = (r, this', fetched)"
  shows "cache this' k = Some \<lparr>entry_data = r, entry_timestamp = now_store env\<rparr> \<and> cacheDuration this' = cacheDuration this"
  using assms by (auto simp: aggregate_miss_def Let_def)

text \<open>
  Claim C8: after a call of \<open>aggregate\<close> for a market and category, the cache holds an
  entry for their key whose data is the returned result (stored at that call when it was
  not a cache hit).  A second call for the same market and category while that entry is
  younger than \<open>cacheDuration\<close> returns the same result, leaves the skill unchanged and
  fetches from no source, whatever the sources would return.
\<close>

theorem aggregate_cached_within_ttl:
  assumes "aggregate this env1 m category = (r1, this1, fetched1)"
  shows "\<exists>e. cache this1 (cacheKey category m) = Some e \<and> entry_data e = r1 \<and>
            (\<not> cache_hit this (now_check env1) (cacheKey category m) \<longrightarrow> entry_timestamp e = now_store env1) \<and>
            (now_check env2 - entry_timestamp e < cacheDuration this1 \<longrightarrow>
               aggregate this1 env2 m category = (r1, this1, []))"
proof (cases "cache_hit this (now_check env1) (cacheKey category m)")
  case True
  then obtain e where e: "cache this (cacheKey category m) = Some e"
     "now_check env1 - entry_timestamp e < cacheDuration this"
    by (auto simp: cache_hit_def split: option.splits)
  with assms have "r1 = entry_data e" "this1 = this" by (auto simp: aggregate_def Let_def)
  with e True show ?thesis by (auto simp: aggregate_def Let_def)
next
  case False
  then have "aggregate this env1 m category = aggregate_miss this env1 (cacheKey category m)"
    by (auto simp: aggregate_def cache_hit_def Let_def split: option.splits)
  with assms have "aggregate_miss this env1 (cacheKey category m) = (r1, this1, fetched1)" by simp
  from aggregate_miss_stores[OF this] False show ?thesis
    by (auto simp: aggregate_def Let_def)
qed


theorem aggregate_cached_within_ttl_witness:
  "aggregate
     (fst (snd (aggregate new_aggregation_skill
        \<lparr>now_check = 1000, fetchNewsSignals = Some [],
          fetchSocialSignals =
            Some [\<lparr>sig_type = Some ''social'', sentiment = Some 0.6,
              change24h = None, weight = Some 0.3\<rparr>],
          fetchOnChainSignals = None, now_result = 1001, now_store = 1002\<rparr>
        (MarketObject (Some ''m1'')) ''politics'')))
     \<lparr>now_check = 200000, fetchNewsSignals = None,
       fetchSocialSignals =
            Some [\<lparr>sig_type = Some ''social'', sentiment = Some (- 0.2),
              change24h = None, weight = Some 0.3\<rparr>],
       fetchOnChainSignals = None, now_result = 200001, now_store = 200002\<rparr>
     (MarketObject (Some ''m1'')) ''politics''
   = (\<lparr>result_signals =
            [\<lparr>sig_type = Some ''social'', sentiment = Some 0.6,
              change24h = None, weight = Some 0.3\<rparr>],
        result_score = Num 0.8, result_timestamp = 1001, result_sourceCount = 1\<rparr>,
      fst (snd (aggregate new_aggregation_skill
        \<lparr>now_check = 1000, fetchNewsSignals = Some [],
          fetchSocialSignals =
            Some [\<lparr>sig_type = Some ''social'', sentiment = Some 0.6,
              change24h = None, weight = Some 0.3\<rparr>],
          fetchOnChainSignals = None, now_result = 1001, now_store = 1002\<rparr>
        (MarketObject (Some ''m1'')) ''politics'')),
      [])"
proof -
  define T where "T = new_aggregation_skill"
  define E1 where "E1 = \<lparr>now_check = 1000, fetchNewsSignals = Some [],
          fetchSocialSignals =
            Some [\<lparr>sig_type = Some ''social'', sentiment = Some 0.6,
              change24h = None, weight = Some 0.3\<rparr>],
          fetchOnChainSignals = None, now_result = 1001, now_store = 1002\<rparr>"
  define E2 where "E2 = \<lparr>now_check = 200000, fetchNewsSignals = None,
       fetchSocialSignals =
            Some [\<lparr>sig_type = Some ''social'', sentiment = Some (- 0.2),
              change24h = None, weight = Some 0.3\<rparr>],
       fetchOnChainSignals = None, now_result = 200001, now_store = 200002\<rparr>"
  define M where "M = MarketObject (Some ''m1'')"
  define A where "A = aggregate T E1 M ''politics''"
  have r: "fst A = \<lparr>result_signals =
            [\<lparr>sig_type = Some ''social'', sentiment = Some 0.6,
              change24h = None, weight = Some 0.3\<rparr>],
        result_score = Num 0.8, result_timestamp = 1001, result_sourceCount = 1\<rparr>"
    by (simp add: A_def T_def E1_def new_aggregation_skill_def aggregate_def
        aggregate_miss_def Let_def
        List.map_filter_simps calculateWeightedScore_def normalizeSignal_def)
  have d: "cacheDuration (fst (snd A)) = 300000"
    by (simp add: A_def T_def new_aggregation_skill_def aggregate_def aggregate_miss_def
        Let_def)
  have nh: "\<not> cache_hit T (now_check E1) (cacheKey ''politics'' M)"
    by (simp add: cache_hit_def T_def new_aggregation_skill_def)
  have first: "aggregate T E1 M ''politics'' = (fst A, fst (snd A), snd (snd A))"
    by (simp add: A_def)
  from aggregate_cached_within_ttl[OF first, of E2] obtain e where
    e: "cache (fst (snd A)) (cacheKey ''politics'' M) = Some e \<and>
        entry_data e = fst A \<and>
        (\<not> cache_hit T (now_check E1) (cacheKey ''politics'' M)
           \<longrightarrow> entry_timestamp e = now_store E1) \<and>
        (now_check E2 - entry_timestamp e < cacheDuration (fst (snd A))
           \<longrightarrow> aggregate (fst (snd A)) E2 M ''politics'' = (fst A, fst (snd A), []))" ..
  note e1 = e[THEN conjunct2, THEN conjunct2, THEN conjunct1]
  note e2 = e[THEN conjunct2, THEN conjunct2, THEN conjunct2]
  from e1 nh have ts: "entry_timestamp e = 1002" by (simp add: E1_def)
  have "now_check E2 - entry_timestamp e < cacheDuration (fst (snd A))"
    by (simp add: ts d E2_def)
  with e2 have "aggregate (fst (snd A)) E2 M ''politics'' = (fst A, fst (snd A), [])"
    by (rule mp)
  then show ?thesis unfolding r unfolding A_def T_def E1_def E2_def M_def .
qed

section \<open>Properties of the confidence score\<close>

lemma applyMarketAdjustments_Some:
  "\<exists>x. applyMarketAdjustments conf (Some sg) = Inr x"
  by (simp add: applyMarketAdjustments_def Let_def)

lemma calculate_null_signals:
  "calculate this prediction None perf = Inl TypeError"
  by (simp add: calculate_def applyMarketAdjustments_def Let_def)

text \<open>
  A bucket recorded for an \<open>undefined\<close> confidence is found again by a lookup with an
  \<open>undefined\<close> confidence: both use the key \<open>NaN\<close>.
\<close>

lemma getCalibration_undefined_confidence:
  "bucket_of None = NaN \<and>
   getCalibrationForConfidence
     \<lparr>config = default_config, calibrationData = recordOutcome Map.empty None True None\<rparr> None
     = Some \<lparr>bucket_samples = 1, bucket_correct = 1, accuracy = 1\<rparr>"
  by (simp add: getCalibrationForConfidence_def recordOutcome_def recalculate_def bucket_of_def
      Let_def)

text \<open>
  Claim C1: for every skill (configuration and calibration ledger), prediction, signal set
  and performance history (present or not), \<open>calculate\<close> returns a number in the closed
  interval \<open>[0.01, 0.99]\<close>.
\<close>

theorem calculate_within_clamp:
  "\<exists>r. calculate this prediction (Some sg) perf = Inr r \<and> 0.01 \<le> r \<and> r \<le> 0.99"
proof -
  define conf where "conf =
     (if calibrationEnabled (config this)
      then applyCalibration this (combined this prediction (Some sg) perf) (marketType prediction)
      else combined this prediction (Some sg) perf)"
  obtain x where x: "applyMarketAdjustments conf (Some sg) = Inr x"
    using applyMarketAdjustments_Some by blast
  have "calculate this prediction (Some sg) perf = Inr (min (max x 0.01) 0.99)"
    using x by (simp add: calculate_def Let_def conf_def)
  moreover have "0.01 \<le> min (max x 0.01) (0.99::real)" by simp
  moreover have "min (max x 0.01) 0.99 \<le> (0.99::real)" by simp
  ultimately show ?thesis by blast
qed

lemma model_score_dataQuality [simp]:
  "model_score (prediction\<lparr>dataQuality := d\<rparr>) = model_score prediction"
  by (simp add: model_score_def Let_def)

text \<open>
  For every data quality that is present and not zero the score (the raw confidence after
  the model adjustment) is multiplied by \<open>0.5 + 0.5 \<times> dq\<close> and then capped at 0.95; a data
  quality of 1 leaves the score unchanged.
\<close>

lemma base_confidence_nonzero_quality:
  assumes "dq \<noteq> 0"
  shows "calculateBaseConfidence (prediction\<lparr>dataQuality := Some dq\<rparr>)
           = min (model_score prediction * (0.5 + 0.5 * dq)) 0.95 \<and>
         calculateBaseConfidence (prediction\<lparr>dataQuality := Some 1\<rparr>)
           = min (model_score prediction) 0.95 \<and>
         calculateBaseConfidence prediction \<le> 0.95"
  using assms by (simp add: calculateBaseConfidence_def Let_def mult.commute)

text \<open>
  Claim C6 says that the raw confidence is always multiplied by \<open>0.5 + 0.5 \<times> dataQuality\<close>,
  so that a data quality of 0 halves the base score.  The code does not do so at a data
  quality of 0: \<open>if (prediction.dataQuality)\<close> is false for 0 and the factor is skipped.
  With raw confidence 0.8 and a model without adjustment the base confidence is 0.8 at data
  quality 0, not \<open>0.8 \<times> 0.5 = 0.4\<close>, while it is 0.404 at data quality 0.01.
\<close>

theorem base_confidence_zero_quality:
  "calculateBaseConfidence
     \<lparr>rawConfidence = Some 0.8, model = Some ''test'', dataQuality = Some 0,
      marketType = None\<rparr> = 0.8 \<and>
   \<not> (calculateBaseConfidence
     \<lparr>rawConfidence = Some 0.8, model = Some ''test'', dataQuality = Some 0,
      marketType = None\<rparr> = min (0.8 * (0.5 + 0.5 * 0)) 0.95) \<and>
   calculateBaseConfidence
     \<lparr>rawConfidence = Some 0.8, model = Some ''test'', dataQuality = Some 0.01,
      marketType = None\<rparr> = 0.404"
  by (simp add: calculateBaseConfidence_def model_score_def)

section \<open>Properties of the calibration ledger\<close>

lemma recordOutcome_bucket_same:
  assumes "bucket_of c' = bucket_of c"
  shows "bucket_at (recordOutcome l c' True mt) mt c =
     Some \<lparr>bucket_samples = samples_at l mt c + 1, bucket_correct = correct_at l mt c + 1,
           accuracy = real (correct_at l mt c + 1) / real (samples_at l mt c + 1)\<rparr>"
  using assms
  by (auto simp: bucket_at_def recordOutcome_def recalculate_def samples_at_def correct_at_def Let_def
      split: option.splits)

lemma ledger_ok_empty: "ledger_ok Map.empty"
  by (simp add: ledger_ok_def)

lemma recalculate_Some:
  "recalculate bs b = Some bd' \<longleftrightarrow>
     (\<exists>bd. bs b = Some bd \<and> bd' = bd\<lparr>accuracy := real (bucket_correct bd) / real (bucket_samples bd)\<rparr>)"
  by (auto simp: recalculate_def)

lemma ledger_ok_recordOutcome:
  assumes "ledger_ok l"
  shows "ledger_ok (recordOutcome l c outcome mt)"
proof -
  define t0 where "t0 = (case mt of None \<Rightarrow> ''default'' | Some t \<Rightarrow> t)"
  define cal0 where "cal0 = (case l t0 of None \<Rightarrow> \<lparr>cal_samples = 0, buckets = Map.empty\<rparr> | Some cal \<Rightarrow> cal)"
  define b0 where "b0 = (case buckets cal0 (bucket_of c) of
       None \<Rightarrow> \<lparr>bucket_samples = 0, bucket_correct = 0, accuracy = 0\<rparr> | Some bd \<Rightarrow> bd)"
  define b1 where "b1 = b0\<lparr>bucket_samples := bucket_samples b0 + 1\<rparr>"
  define b2 where "b2 = (if outcome then b1\<lparr>bucket_correct := bucket_correct b1 + 1\<rparr> else b1)"
  have old: "buckets cal0 b = Some bd \<Longrightarrow> bucket_ok bd" for b bd
    using assms by (auto simp: cal0_def ledger_ok_def split: option.splits)
  have b0: "bucket_correct b0 \<le> bucket_samples b0"
    using old by (auto simp: b0_def bucket_ok_def split: option.splits)
  have b2: "0 < bucket_samples b2" "bucket_correct b2 \<le> bucket_samples b2"
    using b0 by (auto simp: b2_def b1_def)
  have eq: "recordOutcome l c outcome mt =
      l(t0 \<mapsto> cal0\<lparr>cal_samples := cal_samples cal0 + 1,
                    buckets := recalculate ((buckets cal0)(bucket_of c \<mapsto> b2))\<rparr>)"
    unfolding recordOutcome_def Let_def t0_def[symmetric]
    unfolding cal0_def[symmetric]
    by (simp add: b0_def b1_def b2_def)
  show ?thesis
    unfolding ledger_ok_def
  proof (intro allI impI)
    fix t cal b bd
    assume t: "recordOutcome l c outcome mt t = Some cal" and b: "buckets cal b = Some bd"
    show "bucket_ok bd"
    proof (cases "t = t0")
      case False
      with t eq have "l t = Some cal" by simp
      with assms b show ?thesis by (auto simp: ledger_ok_def)
    next
      case True
      with t eq have "buckets cal = recalculate ((buckets cal0)(bucket_of c \<mapsto> b2))" by auto
      with b obtain x where x: "((buckets cal0)(bucket_of c \<mapsto> b2)) b = Some x"
        "bd = x\<lparr>accuracy := real (bucket_correct x) / real (bucket_samples x)\<rparr>"
        by (auto simp: recalculate_Some)
      show ?thesis
      proof (cases "b = bucket_of c")
        case True
        with x have "x = b2" by simp
        then show ?thesis using x(2) b2 by (simp add: bucket_ok_def)
      next
        case False
        with x have "buckets cal0 b = Some x" by simp
        from old[OF this] show ?thesis using x(2) by (simp add: bucket_ok_def)
      qed
    qed
  qed
qed

lemma ledger_ok_ledger_after: "ledger_ok (ledger_after calls)"
  by (induction calls) (auto simp: ledger_ok_empty ledger_ok_recordOutcome)

lemma ledger_ok_record_correct: "ledger_ok l \<Longrightarrow> ledger_ok (record_correct cs n mt l)"
  by (induction n) (auto simp: ledger_ok_recordOutcome)

lemma counts_record_correct:
  assumes "\<forall>i. bucket_of (cs i) = bucket_of c"
  shows "samples_at (record_correct cs n mt l) mt c = samples_at l mt c + n \<and>
         correct_at (record_correct cs n mt l) mt c = correct_at l mt c + n"
proof (induction n)
  case 0
  show ?case by simp
next
  case (Suc n)
  from assms have "bucket_of (cs n) = bucket_of c" by simp
  from recordOutcome_bucket_same[OF this, of "record_correct cs n mt l" mt] Suc
  show ?case by (simp add: samples_at_def correct_at_def)
qed

lemma bucket_record_correct:
  assumes "\<forall>i. bucket_of (cs i) = bucket_of c" "0 < n"
  shows "bucket_at (record_correct cs n mt l) mt c =
     Some \<lparr>bucket_samples = samples_at l mt c + n, bucket_correct = correct_at l mt c + n,
           accuracy = real (correct_at l mt c + n) / real (samples_at l mt c + n)\<rparr>"
proof -
  from assms(2) obtain k where n: "n = Suc k" by (cases n) auto
  from assms(1) have "bucket_of (cs k) = bucket_of c" by simp
  from recordOutcome_bucket_same[OF this, of "record_correct cs k mt l" mt]
    counts_record_correct[OF assms(1), of k mt l]
  show ?thesis by (simp add: n)
qed

lemma counts_le:
  assumes "ledger_ok l"
  shows "correct_at l mt c \<le> samples_at l mt c"
  using assms
  by (auto simp: correct_at_def samples_at_def bucket_at_def ledger_ok_def bucket_ok_def
      split: option.splits)

lemma ratio_le_one: "(a::nat) \<le> b \<Longrightarrow> real a / real b \<le> 1"
  by (cases "b = 0") (simp_all add: divide_le_eq_1)

lemma ratio_mono:
  assumes "(a::nat) \<le> b" "0 < b"
  shows "real a / real b \<le> real (Suc a) / real (Suc b)"
  using assms by (simp add: field_simps)

lemma ratio_tendsto_one:
  fixes a b :: nat
  assumes "a \<le> b"
  shows "(\<lambda>n. real (a + n) / real (b + n)) \<longlonglongrightarrow> 1"
proof -
  have "(\<lambda>n. real (b - a) / real n) \<longlonglongrightarrow> 0"
    by (rule lim_const_over_n)
  then have "(\<lambda>n. real (b - a) / real (n + b)) \<longlonglongrightarrow> 0"
    by (rule LIMSEQ_ignore_initial_segment)
  then have "(\<lambda>n. 1 - real (b - a) / real (n + b)) \<longlonglongrightarrow> 1 - 0"
    by (intro tendsto_diff tendsto_const)
  then have lim: "(\<lambda>n. 1 - real (b - a) / real (n + b)) \<longlonglongrightarrow> 1" by simp
  have "1 - real (b - a) / real (n + b) = real (a + n) / real (b + n)" if "1 \<le> n" for n
    using assms that by (simp add: field_simps of_nat_diff)
  then have ev: "eventually (\<lambda>n. 1 - real (b - a) / real (n + b) = real (a + n) / real (b + n))
      sequentially"
    by (rule eventually_sequentiallyI)
  show ?thesis by (rule Lim_transform_eventually[OF lim ev])
qed


lemma accuracy_at_record_correct:
  assumes "\<forall>i. bucket_of (cs i) = bucket_of c" "0 < n"
  shows "accuracy_at (record_correct cs n mt l) mt c
           = real (correct_at l mt c + n) / real (samples_at l mt c + n)"
  using bucket_record_correct[OF assms, of mt l] by (simp add: accuracy_at_def)

lemma accuracy_at_le_one:
  assumes "ledger_ok l"
  shows "accuracy_at l mt c \<le> 1"
proof (cases "bucket_at l mt c")
  case None
  then show ?thesis by (simp add: accuracy_at_def)
next
  case (Some bd)
  then have "bucket_ok bd" using assms
    by (auto simp: bucket_at_def ledger_ok_def split: option.splits)
  then have "accuracy bd \<le> 1" by (simp add: bucket_ok_def ratio_le_one)
  with Some show ?thesis by (simp add: accuracy_at_def)
qed

text \<open>
  Claim C9: take any ledger the program can hold and record \<open>n\<close> further correct outcomes
  whose confidences fall in the bucket of \<open>c\<close>, for market type \<open>mt\<close>.  For \<open>n > 0\<close> the
  bucket then holds the earlier counters plus \<open>n\<close> and their quotient as accuracy.  The
  accuracy never exceeds 1, does not decrease from one call to the next, and tends to 1 as
  \<open>n\<close> grows; with no incorrect outcome recorded in the bucket before, it is exactly 1.
  In every ledger so reached, every bucket has at least one sample, no more correct
  outcomes than samples, and the quotient of the two as accuracy.
\<close>

theorem calibration_accuracy_trend:
  assumes same: "\<forall>i. bucket_of (cs i) = bucket_of c"
  shows "(\<forall>n. 0 < n \<longrightarrow>
            bucket_at (record_correct cs n mt (ledger_after calls)) mt c =
              Some \<lparr>bucket_samples = samples_at (ledger_after calls) mt c + n,
                    bucket_correct = correct_at (ledger_after calls) mt c + n,
                    accuracy = real (correct_at (ledger_after calls) mt c + n)
                               / real (samples_at (ledger_after calls) mt c + n)\<rparr>) \<and>
         (\<forall>n. accuracy_at (record_correct cs n mt (ledger_after calls)) mt c \<le> 1) \<and>
         (\<forall>n. 0 < n \<longrightarrow>
            accuracy_at (record_correct cs n mt (ledger_after calls)) mt c
              \<le> accuracy_at (record_correct cs (Suc n) mt (ledger_after calls)) mt c) \<and>
         (\<lambda>n. accuracy_at (record_correct cs n mt (ledger_after calls)) mt c) \<longlonglongrightarrow> 1 \<and>
         (correct_at (ledger_after calls) mt c = samples_at (ledger_after calls) mt c \<longrightarrow>
            (\<forall>n. 0 < n \<longrightarrow>
               accuracy_at (record_correct cs n mt (ledger_after calls)) mt c = 1)) \<and>
         (\<forall>n t cal b bd.
            record_correct cs n mt (ledger_after calls) t = Some cal \<longrightarrow>
            buckets cal b = Some bd \<longrightarrow>
              accuracy bd = real (bucket_correct bd) / real (bucket_samples bd) \<and>
              bucket_correct bd \<le> bucket_samples bd \<and> 0 < bucket_samples bd)"
proof -
  define L where "L = ledger_after calls"
  define s0 where "s0 = samples_at L mt c"
  define c0 where "c0 = correct_at L mt c"
  have ok: "ledger_ok L" unfolding L_def by (rule ledger_ok_ledger_after)
  have okn: "ledger_ok (record_correct cs n mt L)" for n
    by (rule ledger_ok_record_correct[OF ok])
  have le: "c0 \<le> s0" unfolding c0_def s0_def by (rule counts_le[OF ok])
  have acc: "accuracy_at (record_correct cs n mt L) mt c = real (c0 + n) / real (s0 + n)"
    if "0 < n" for n
    unfolding c0_def s0_def by (rule accuracy_at_record_correct[OF same that])
  have p1: "\<forall>n. 0 < n \<longrightarrow>
            bucket_at (record_correct cs n mt L) mt c =
              Some \<lparr>bucket_samples = s0 + n, bucket_correct = c0 + n,
                    accuracy = real (c0 + n) / real (s0 + n)\<rparr>"
    unfolding c0_def s0_def using bucket_record_correct[OF same] by blast
  have p2: "\<forall>n. accuracy_at (record_correct cs n mt L) mt c \<le> 1"
    using accuracy_at_le_one[OF okn] by blast
  have p3: "\<forall>n. 0 < n \<longrightarrow> accuracy_at (record_correct cs n mt L) mt c
              \<le> accuracy_at (record_correct cs (Suc n) mt L) mt c"
  proof (intro allI impI)
    fix n :: nat assume n: "0 < n"
    have "real (c0 + n) / real (s0 + n) \<le> real (Suc (c0 + n)) / real (Suc (s0 + n))"
      by (rule ratio_mono) (use le n in simp_all)
    then show "accuracy_at (record_correct cs n mt L) mt c
              \<le> accuracy_at (record_correct cs (Suc n) mt L) mt c"
      using acc[OF n] acc[of "Suc n"] by simp
  qed
  have p4: "(\<lambda>n. accuracy_at (record_correct cs n mt L) mt c) \<longlonglongrightarrow> 1"
  proof -
    have lim: "(\<lambda>n. real (c0 + n) / real (s0 + n)) \<longlonglongrightarrow> 1"
      by (rule ratio_tendsto_one[OF le])
    have "real (c0 + n) / real (s0 + n) = accuracy_at (record_correct cs n mt L) mt c"
      if "1 \<le> n" for n using acc[of n] that by simp
    then have ev: "eventually (\<lambda>n. real (c0 + n) / real (s0 + n)
         = accuracy_at (record_correct cs n mt L) mt c) sequentially"
      by (rule eventually_sequentiallyI)
    show ?thesis by (rule Lim_transform_eventually[OF lim ev])
  qed
  have p5: "c0 = s0 \<longrightarrow> (\<forall>n. 0 < n \<longrightarrow> accuracy_at (record_correct cs n mt L) mt c = 1)"
    using acc by simp
  have p6: "\<forall>n t cal b bd.
            record_correct cs n mt L t = Some cal \<longrightarrow>
            buckets cal b = Some bd \<longrightarrow>
              accuracy bd = real (bucket_correct bd) / real (bucket_samples bd) \<and>
              bucket_correct bd \<le> bucket_samples bd \<and> 0 < bucket_samples bd"
    using okn unfolding ledger_ok_def bucket_ok_def by blast
  from p1 p2 p3 p4 p5 p6 show ?thesis unfolding L_def s0_def c0_def by blast
qed

theorem calibration_accuracy_trend_witness:
  "(\<forall>i. bucket_of ((\<lambda>_. Some 0.75) i) = bucket_of (Some 0.75)) \<and>
   bucket_at (record_correct (\<lambda>_. Some 0.75) 3 None (ledger_after [(Some 0.71, False, None)])) None (Some 0.75)
     = Some \<lparr>bucket_samples = 4, bucket_correct = 3, accuracy = 3 / 4\<rparr> \<and>
   accuracy_at (record_correct (\<lambda>_. Some 0.75) 3 None (ledger_after [(Some 0.71, False, None)])) None (Some 0.75)
     \<le> accuracy_at (record_correct (\<lambda>_. Some 0.75) 4 None (ledger_after [(Some 0.71, False, None)])) None (Some 0.75) \<and>
   accuracy_at (record_correct (\<lambda>_. Some 0.75) 2 None (ledger_after [])) None (Some 0.75) = 1"
proof -
  define cs :: "nat \<Rightarrow> real option" where "cs = (\<lambda>_. Some 0.75)"
  define L where "L = ledger_after [(Some 0.71, False, None)]"
  define E where "E = ledger_after []"
  have h: "\<forall>i. bucket_of (cs i) = bucket_of (Some 0.75)" by (simp add: cs_def)
  have s: "samples_at L None (Some 0.75) = 1" "correct_at L None (Some 0.75) = 0"
    by (simp_all add: L_def samples_at_def correct_at_def bucket_at_def recordOutcome_def
        recalculate_def bucket_of_def Let_def)
  have e: "correct_at E None (Some 0.75) = samples_at E None (Some 0.75)"
    by (simp add: E_def samples_at_def correct_at_def bucket_at_def)
  note t1 = calibration_accuracy_trend[OF h, of None "[(Some 0.71, False, None)]", folded L_def]
  note t2 = calibration_accuracy_trend[OF h, of None "[]", folded E_def]
  have a: "bucket_at (record_correct cs 3 None L) None (Some 0.75)
     = Some \<lparr>bucket_samples = 4, bucket_correct = 3, accuracy = 3 / 4\<rparr>"
    using t1[THEN conjunct1, rule_format, of 3, unfolded s] by simp
  have b: "accuracy_at (record_correct cs 3 None L) None (Some 0.75)
     \<le> accuracy_at (record_correct cs 4 None L) None (Some 0.75)"
    using t1[THEN conjunct2, THEN conjunct2, THEN conjunct1, rule_format, of 3]
    by (simp add: eval_nat_numeral)
  have c: "accuracy_at (record_correct cs 2 None E) None (Some 0.75) = 1"
    using t2[THEN conjunct2, THEN conjunct2, THEN conjunct2, THEN conjunct2, THEN conjunct1,
        rule_format, OF e, of 2] by simp
  have h': "\<forall>i. bucket_of ((\<lambda>_. Some 0.75) i) = bucket_of (Some 0.75)" by simp
  from h' a b c show ?thesis unfolding cs_def L_def E_def by blast
qed

subsection \<open>Small buckets in the history component\<close>

lemma samples_total_recordOutcome:
  "samples_total (recordOutcome l c outcome mt) mt = samples_total l mt + 1"
  by (simp add: samples_total_def recordOutcome_def Let_def split: option.splits)

lemma samples_total_record_correct:
  "samples_total (record_correct cs n mt l) mt = samples_total l mt + n"
  by (induction n) (simp_all add: samples_total_recordOutcome)

lemma bucket_at_recordOutcome_other:
  assumes "bucket_of c' \<noteq> bucket_of c" "ledger_ok l"
  shows "bucket_at (recordOutcome l c' outcome mt) mt c = bucket_at l mt c"
proof -
  define t0 where "t0 = (case mt of None \<Rightarrow> ''default'' | Some t \<Rightarrow> t)"
  show ?thesis
  proof (cases "l t0")
    case None
    then show ?thesis using assms(1)
      by (simp add: bucket_at_def recordOutcome_def recalculate_def Let_def t0_def)
  next
    case (Some cal)
    show ?thesis
    proof (cases "buckets cal (bucket_of c)")
      case None
      with Some show ?thesis using assms(1)
        by (simp add: bucket_at_def recordOutcome_def recalculate_def Let_def t0_def)
    next
      case (Some bd)
      with \<open>l t0 = Some cal\<close> assms(2) have "bucket_ok bd"
        by (auto simp: ledger_ok_def)
      then have "bd\<lparr>accuracy := real (bucket_correct bd) / real (bucket_samples bd)\<rparr> = bd"
        by (simp add: bucket_ok_def)
      with Some \<open>l t0 = Some cal\<close> show ?thesis using assms(1)
        by (simp add: bucket_at_def recordOutcome_def recalculate_def Let_def t0_def)
    qed
  qed
qed

lemma bucket_at_record_correct_other:
  assumes "\<forall>i. bucket_of (cs i) \<noteq> bucket_of c" "ledger_ok l"
  shows "bucket_at (record_correct cs n mt l) mt c = bucket_at l mt c"
proof (induction n)
  case 0
  show ?case by simp
next
  case (Suc n)
  from assms(1) have "bucket_of (cs n) \<noteq> bucket_of c" by simp
  from bucket_at_recordOutcome_other[OF this ledger_ok_record_correct[OF assms(2)]] Suc
  show ?case by simp
qed

lemma small_bucket_ledger:
  fixes L :: ledger
  defines "L \<equiv> record_correct (\<lambda>_. Some 0.55) 19 None
                 (recordOutcome Map.empty (Some 0.75) True None)"
  shows "\<exists>cal. L ''default'' = Some cal \<and> cal_samples cal = 20 \<and>
           buckets cal (bucket_of (Some 0.75))
             = Some \<lparr>bucket_samples = 1, bucket_correct = 1, accuracy = 1\<rparr>"
proof -
  define L1 where "L1 = recordOutcome Map.empty (Some 0.75) True None"
  have ok: "ledger_ok L1" unfolding L1_def by (rule ledger_ok_recordOutcome[OF ledger_ok_empty])
  have ne: "\<forall>i::nat. bucket_of ((\<lambda>_. Some 0.55) i) \<noteq> bucket_of (Some 0.75)"
    by (simp add: bucket_of_def)
  have b1: "bucket_at L1 None (Some 0.75)
      = Some \<lparr>bucket_samples = 1, bucket_correct = 1, accuracy = 1\<rparr>"
    by (simp add: L1_def bucket_at_def recordOutcome_def recalculate_def Let_def)
  have t1: "samples_total L1 None = 1"
    by (simp add: L1_def samples_total_def recordOutcome_def Let_def)
  have b: "bucket_at L None (Some 0.75)
      = Some \<lparr>bucket_samples = 1, bucket_correct = 1, accuracy = 1\<rparr>"
    unfolding L_def L1_def[symmetric]
    using bucket_at_record_correct_other[OF ne ok, of 19 None] b1 by simp
  have t: "samples_total L None = 20"
    unfolding L_def L1_def[symmetric]
    using samples_total_record_correct[of "\<lambda>_. Some 0.55" 19 None L1] t1 by simp
  from b obtain cal where c: "L ''default'' = Some cal"
    "buckets cal (bucket_of (Some 0.75))
       = Some \<lparr>bucket_samples = 1, bucket_correct = 1, accuracy = 1\<rparr>"
    by (auto simp: bucket_at_def split: option.splits)
  with t have "cal_samples cal = 20" by (simp add: samples_total_def)
  with c show ?thesis by blast
qed

text \<open>
  Claim C7 says that the 70/30 blend of the history component is applied only if the
  bucket has more than 5 samples.  The code applies it to a bucket of one sample: after
  one recorded outcome the bucket of confidence 0.75 in the \<open>'default'\<close> ledger has one
  sample, and the history confidence for 50 samples and win rate 0.6 is
  \<open>0.6 \<times> 0.7 + 1 \<times> 0.3 = 0.72\<close>, not the 0.6 it is without the blend.  On the ledger
  after 19 more outcomes in another bucket (20 samples in all), \<open>applyCalibration\<close> leaves
  the confidence 0.75 unchanged because that bucket has no more than 5 samples, while the
  history component still blends to 0.72.
\<close>

theorem history_blend_small_bucket:
  "bucket_at (recordOutcome Map.empty (Some 0.75) True None) None (Some 0.75)
     = Some \<lparr>bucket_samples = 1, bucket_correct = 1, accuracy = 1\<rparr> \<and>
   \<not> 5 < bucket_samples \<lparr>bucket_samples = 1, bucket_correct = 1, accuracy = 1\<rparr> \<and>
   calculateHistoryConfidence
     \<lparr>config = default_config, calibrationData = recordOutcome Map.empty (Some 0.75) True None\<rparr>
     (Some \<lparr>perf_total = Some 50, winRate = Some 0.6, recentWinRate = None, pnl = None\<rparr>)
     \<lparr>rawConfidence = Some 0.75, model = Some ''test'', dataQuality = None, marketType = None\<rparr>
     = 0.72 \<and>
   calculateHistoryConfidence
     \<lparr>config = default_config, calibrationData = Map.empty\<rparr>
     (Some \<lparr>perf_total = Some 50, winRate = Some 0.6, recentWinRate = None, pnl = None\<rparr>)
     \<lparr>rawConfidence = Some 0.75, model = Some ''test'', dataQuality = None, marketType = None\<rparr>
     = 0.6 \<and>
   applyCalibration
     \<lparr>config = default_config,
      calibrationData = record_correct (\<lambda>_. Some 0.55) 19 None
                          (recordOutcome Map.empty (Some 0.75) True None)\<rparr>
     0.75 None = 0.75 \<and>
   calculateHistoryConfidence
     \<lparr>config = default_config,
      calibrationData = record_correct (\<lambda>_. Some 0.55) 19 None
                          (recordOutcome Map.empty (Some 0.75) True None)\<rparr>
     (Some \<lparr>perf_total = Some 50, winRate = Some 0.6, recentWinRate = None, pnl = None\<rparr>)
     \<lparr>rawConfidence = Some 0.75, model = Some ''test'', dataQuality = None, marketType = None\<rparr>
     = 0.72"
proof -
  define L where "L = record_correct (\<lambda>_. Some 0.55) 19 None
                          (recordOutcome Map.empty (Some 0.75) True None)"
  from small_bucket_ledger obtain cal where cal: "L ''default'' = Some cal" "cal_samples cal = 20"
    "buckets cal (bucket_of (Some 0.75))
       = Some \<lparr>bucket_samples = 1, bucket_correct = 1, accuracy = 1\<rparr>"
    unfolding L_def by blast
  have a: "applyCalibration \<lparr>config = default_config, calibrationData = L\<rparr> 0.75 None = 0.75"
    using cal by (simp add: applyCalibration_def Let_def)
  have h: "calculateHistoryConfidence \<lparr>config = default_config, calibrationData = L\<rparr>
     (Some \<lparr>perf_total = Some 50, winRate = Some 0.6, recentWinRate = None, pnl = None\<rparr>)
     \<lparr>rawConfidence = Some 0.75, model = Some ''test'', dataQuality = None, marketType = None\<rparr>
     = 0.72"
    using cal
    by (simp add: calculateHistoryConfidence_def getCalibrationForConfidence_def
        default_config_def trend_score_def pnl_penalty_def Let_def)
  have rest: "bucket_at (recordOutcome Map.empty (Some 0.75) True None) None (Some 0.75)
     = Some \<lparr>bucket_samples = 1, bucket_correct = 1, accuracy = 1\<rparr> \<and>
   \<not> 5 < bucket_samples \<lparr>bucket_samples = 1, bucket_correct = 1, accuracy = 1\<rparr> \<and>
   calculateHistoryConfidence
     \<lparr>config = default_config, calibrationData = recordOutcome Map.empty (Some 0.75) True None\<rparr>
     (Some \<lparr>perf_total = Some 50, winRate = Some 0.6, recentWinRate = None, pnl = None\<rparr>)
     \<lparr>rawConfidence = Some 0.75, model = Some ''test'', dataQuality = None, marketType = None\<rparr>
     = 0.72 \<and>
   calculateHistoryConfidence
     \<lparr>config = default_config, calibrationData = Map.empty\<rparr>
     (Some \<lparr>perf_total = Some 50, winRate = Some 0.6, recentWinRate = None, pnl = None\<rparr>)
     \<lparr>rawConfidence = Some 0.75, model = Some ''test'', dataQuality = None, marketType = None\<rparr>
     = 0.6"
    by (simp add: bucket_at_def recordOutcome_def recalculate_def bucket_of_def
      calculateHistoryConfidence_def getCalibrationForConfidence_def
      default_config_def trend_score_def pnl_penalty_def Let_def)
  from rest a h show ?thesis unfolding L_def by blast
qed

end
